theory Spec2Isabelle
  imports Main "HOL-Library.Word"
begin

section \<open>Package chaincfg of godash: network parameters and their registry\<close>

text \<open>
  The development follows \<^verbatim>\<open>chaincfg/params.go\<close> and \<^verbatim>\<open>chaincfg/genesis.go\<close>.
  Go's fixed-width integers are words, \<^verbatim>\<open>[]byte\<close> is a list of bytes, \<^verbatim>\<open>[4]byte\<close> is a
  4-tuple of bytes (its length is part of the type), a Go string is a list of bytes
  (\<^typ>\<open>string\<close>), and \<^verbatim>\<open>big.Int\<close> is \<^typ>\<open>int\<close>. A pointer to a value that is never
  mutated is the value itself.
\<close>

type_synonym byte = "8 word"
type_synonym byte4 = "byte \<times> byte \<times> byte \<times> byte"

subsection \<open>What chaincfg uses of package wire and of the standard library\<close>

text \<open>
  Package \<^verbatim>\<open>wire\<close> declares the type \<^verbatim>\<open>DASHNet\<close> (the 4-byte network magic) and the
  constants \<^verbatim>\<open>MainNet\<close>, \<^verbatim>\<open>TestNet\<close> and \<^verbatim>\<open>TestNet3\<close>. Their values are not part of
  chaincfg, so every definition that reads one of them takes the record \<open>wire\<close> of the
  three constants as a parameter.
\<close>

type_synonym DASHNet = "32 word"

record wire =
  MainNet :: DASHNet
  TestNet :: DASHNet
  TestNet3 :: DASHNet

text \<open>\<^verbatim>\<open>chainhash.Hash\<close> is \<^verbatim>\<open>[HashSize]byte\<close> with \<^verbatim>\<open>HashSize = 32\<close>.\<close>

type_synonym Hash = "byte list"

definition HashSize :: nat where
  "HashSize = 32"

text \<open>The zero value \<^verbatim>\<open>chainhash.Hash{}\<close>.\<close>

definition zeroHash :: Hash where
  "zeroHash = replicate HashSize 0"

text \<open>The message types of package wire, with the fields the literals of genesis.go set.\<close>

record OutPoint =
  Hash :: Hash
  Index :: "32 word"

record TxIn =
  PreviousOutPoint :: OutPoint
  SignatureScript :: "byte list"
  Sequence :: "32 word"

record TxOut =
  Value :: "64 word"
  PkScript :: "byte list"

record MsgTx =
  Version :: "32 word"
  TxIn :: "TxIn list"
  TxOut :: "TxOut list"
  LockTime :: "32 word"

text \<open>\<open>Timestamp\<close> holds the seconds given to \<^verbatim>\<open>time.Unix(sec, 0)\<close>.\<close>

record BlockHeader =
  Version :: "32 word"
  PrevBlock :: Hash
  MerkleRoot :: Hash
  Timestamp :: "64 word"
  Bits :: "32 word"
  Nonce :: "32 word"

record MsgBlock =
  Header :: BlockHeader
  Transactions :: "MsgTx list"

text \<open>\<^verbatim>\<open>time.Duration\<close> is an \<^verbatim>\<open>int64\<close> count of nanoseconds.\<close>

type_synonym Duration = "64 word"

definition Second :: Duration where
  "Second = 1000000000"

definition Minute :: Duration where
  "Minute = 60 * Second"

definition Hour :: Duration where
  "Hour = 60 * Minute"

text \<open>
  \<^verbatim>\<open>strings.ToLower\<close>: a string of ASCII bytes only is returned unchanged when it has no
  upper-case letter, and with \<^verbatim>\<open>'a' - 'A'\<close> added to each byte in \<^verbatim>\<open>'A'..'Z'\<close> otherwise.
  A string with a byte from \<^verbatim>\<open>utf8.RuneSelf = 0x80\<close> on is mapped rune by rune with
  \<^verbatim>\<open>unicode.ToLower\<close>; that mapping rests on the Unicode tables of the standard library
  and is the parameter \<open>unicodeLower\<close>.
\<close>

definition isASCII :: "char \<Rightarrow> bool" where
  "isASCII c = ((of_char c :: int) < 128)"

definition isUpper :: "char \<Rightarrow> bool" where
  "isUpper c = (65 \<le> (of_char c :: int) \<and> (of_char c :: int) \<le> 90)"

definition lowerByte :: "char \<Rightarrow> char" where
  "lowerByte c = (if isUpper c then char_of ((of_char c :: int) + 32) else c)"

definition ToLower :: "(string \<Rightarrow> string) \<Rightarrow> string \<Rightarrow> string" where
  "ToLower unicodeLower s =
     (if list_all isASCII s
      then (if list_ex isUpper s then map lowerByte s else s)
      else unicodeLower s)"

subsection \<open>The types of params.go\<close>

text \<open>
  \<open>Hash\<close> of a checkpoint holds the big-endian hex string handed to
  \<^verbatim>\<open>newHashFromStr\<close>; decoding it is the work of package chainhash.
\<close>

record Checkpoint =
  Height :: "32 word"
  Hash :: string

record DNSSeed =
  Host :: string
  HasFiltering :: bool

record ConsensusDeployment =
  BitNumber :: "8 word"
  StartTime :: "64 word"
  ExpireTime :: "64 word"

definition DeploymentTestDummy :: nat where
  "DeploymentTestDummy = 0"

definition DeploymentCSV :: nat where
  "DeploymentCSV = 1"

definition DeploymentSegwit :: nat where
  "DeploymentSegwit = 2"

definition DefinedDeployments :: nat where
  "DefinedDeployments = 3"

text \<open>
  \<open>Deployments\<close> is the array \<^verbatim>\<open>[DefinedDeployments]ConsensusDeployment\<close>, as the list of
  its entries in index order.
\<close>

record Params =
  Name :: string
  Net :: DASHNet
  DefaultPort :: string
  DNSSeeds :: "DNSSeed list"
  GenesisBlock :: MsgBlock
  GenesisHash :: Hash
  PowLimit :: int
  PowLimitBits :: "32 word"
  BIP0034Height :: "32 word"
  BIP0065Height :: "32 word"
  BIP0066Height :: "32 word"
  CoinbaseMaturity :: "16 word"
  SubsidyReductionInterval :: "32 word"
  TargetTimespan :: Duration
  TargetTimePerBlock :: Duration
  RetargetAdjustmentFactor :: "64 word"
  ReduceMinDifficulty :: bool
  MinDiffReductionTime :: Duration
  GenerateSupported :: bool
  Checkpoints :: "Checkpoint list"
  RuleChangeActivationThreshold :: "32 word"
  MinerConfirmationWindow :: "32 word"
  Deployments :: "ConsensusDeployment list"
  RelayNonStdTxs :: bool
  Bech32HRPSegwit :: string
  PubKeyHashAddrID :: byte
  ScriptHashAddrID :: byte
  PrivateKeyID :: byte
  WitnessPubKeyHashAddrID :: byte
  WitnessScriptHashAddrID :: byte
  HDPrivateKeyID :: byte4
  HDPublicKeyID :: byte4
  HDCoinType :: "32 word"

definition DNSSeed_String :: "DNSSeed \<Rightarrow> string" where
  "DNSSeed_String d = Host d"

subsection \<open>The registry\<close>

datatype error = ErrDuplicateNet | ErrUnknownHDKeyID

fun Error :: "error \<Rightarrow> string" where
  "Error ErrDuplicateNet = ''duplicate DASH network''"
| "Error ErrUnknownHDKeyID = ''unknown hd private extended key bytes''"

datatype panic = Panic string

text \<open>
  The five package-level maps. A \<^verbatim>\<open>map[K]struct{}\<close> carries no more than its set of
  keys and is a set here; \<^verbatim>\<open>hdPrivToPubKeyIDs\<close> is a map from \<^verbatim>\<open>[4]byte\<close> to \<^verbatim>\<open>[]byte\<close>.
\<close>

record registry =
  registeredNets :: "DASHNet set"
  pubKeyHashAddrIDs :: "byte set"
  scriptHashAddrIDs :: "byte set"
  bech32SegwitPrefixes :: "string set"
  hdPrivToPubKeyIDs :: "byte4 \<rightharpoonup> byte list"

text \<open>The state after the \<^verbatim>\<open>make(map...)\<close> initialisers: every map is empty.\<close>

definition empty_registry :: registry where
  "empty_registry =
     \<lparr>registeredNets = {}, pubKeyHashAddrIDs = {}, scriptHashAddrIDs = {},
      bech32SegwitPrefixes = {}, hdPrivToPubKeyIDs = Map.empty\<rparr>"

text \<open>The slice expression \<^verbatim>\<open>a[:]\<close> of a \<^verbatim>\<open>[4]byte\<close>.\<close>

fun slice4 :: "byte4 \<Rightarrow> byte list" where
  "slice4 (b0, b1, b2, b3) = [b0, b1, b2, b3]"

text \<open>
  \<^verbatim>\<open>copy(key[:], id)\<close>: the first \<^verbatim>\<open>min(4, len(id))\<close> bytes of \<open>id\<close> overwrite the
  front of \<open>key\<close>.
\<close>

fun copy4 :: "byte4 \<Rightarrow> byte list \<Rightarrow> byte4" where
  "copy4 (k0, k1, k2, k3) [] = (k0, k1, k2, k3)"
| "copy4 (k0, k1, k2, k3) [a] = (a, k1, k2, k3)"
| "copy4 (k0, k1, k2, k3) [a, b] = (a, b, k2, k3)"
| "copy4 (k0, k1, k2, k3) [a, b, c] = (a, b, c, k3)"
| "copy4 (k0, k1, k2, k3) (a # b # c # d # rest) = (a, b, c, d)"

text \<open>
  \<^verbatim>\<open>Register\<close> mutates the package-level maps and returns an error or \<^verbatim>\<open>nil\<close>: the model
  takes the registry and returns the error (\<open>None\<close> for \<^verbatim>\<open>nil\<close>) with the registry after
  the call. The map stores the slice \<^verbatim>\<open>params.HDPublicKeyID[:]\<close>; parameter sets are not
  mutated after registration, so the stored value is the four bytes at that moment.
  \<open>params\<close> is the parameter set a non-nil pointer refers to.
\<close>

definition Register :: "Params \<Rightarrow> registry \<Rightarrow> error option \<times> registry" where
  "Register params reg =
     (if Net params \<in> registeredNets reg then (Some ErrDuplicateNet, reg)
      else (None,
        reg\<lparr>registeredNets := insert (Net params) (registeredNets reg),
            pubKeyHashAddrIDs := insert (PubKeyHashAddrID params) (pubKeyHashAddrIDs reg),
            scriptHashAddrIDs := insert (ScriptHashAddrID params) (scriptHashAddrIDs reg),
            hdPrivToPubKeyIDs :=
              (hdPrivToPubKeyIDs reg)(HDPrivateKeyID params \<mapsto> slice4 (HDPublicKeyID params)),
            bech32SegwitPrefixes :=
              insert (Bech32HRPSegwit params @ ''1'') (bech32SegwitPrefixes reg)\<rparr>))"

definition mustRegister :: "Params \<Rightarrow> registry \<Rightarrow> panic + registry" where
  "mustRegister params reg =
     (case Register params reg of
        (Some err, reg') \<Rightarrow> Inl (Panic (''failed to register network: '' @ Error err))
      | (None, reg') \<Rightarrow> Inr reg')"

definition IsPubKeyHashAddrID :: "registry \<Rightarrow> byte \<Rightarrow> bool" where
  "IsPubKeyHashAddrID reg id' = (id' \<in> pubKeyHashAddrIDs reg)"

definition IsScriptHashAddrID :: "registry \<Rightarrow> byte \<Rightarrow> bool" where
  "IsScriptHashAddrID reg id' = (id' \<in> scriptHashAddrIDs reg)"

definition IsBech32SegwitPrefix :: "(string \<Rightarrow> string) \<Rightarrow> registry \<Rightarrow> string \<Rightarrow> bool" where
  "IsBech32SegwitPrefix unicodeLower reg prefix =
     (ToLower unicodeLower prefix \<in> bech32SegwitPrefixes reg)"

definition HDPrivateKeyToPublicKeyID :: "registry \<Rightarrow> byte list \<Rightarrow> error + byte list" where
  "HDPrivateKeyToPublicKeyID reg id' =
     (if length id' \<noteq> 4 then Inl ErrUnknownHDKeyID
      else (case hdPrivToPubKeyIDs reg (copy4 (0, 0, 0, 0) id') of
              None \<Rightarrow> Inl ErrUnknownHDKeyID
            | Some pubBytes \<Rightarrow> Inr pubBytes))"

text \<open>
  \<^verbatim>\<open>init\<close> reads the three package-level parameter variables and the registry; they are
  its arguments. A panic ends it at once.
\<close>

definition init :: "Params \<Rightarrow> Params \<Rightarrow> Params \<Rightarrow> registry \<Rightarrow> panic + registry" where
  "init mainNetParams testNet3Params regressionNetParams reg =
     (case mustRegister mainNetParams reg of
        Inl p \<Rightarrow> Inl p
      | Inr reg1 \<Rightarrow>
          (case mustRegister testNet3Params reg1 of
             Inl p \<Rightarrow> Inl p
           | Inr reg2 \<Rightarrow> mustRegister regressionNetParams reg2))"

text \<open>
  Callers of \<^verbatim>\<open>Register\<close>: \<open>Register_each\<close> calls it on each parameter set of a list in
  turn, whatever each call returns, and gives the registry at the end; \<open>registered\<close> lists
  the parameter sets whose call returned \<^verbatim>\<open>nil\<close>, in call order.
\<close>

fun Register_each :: "Params list \<Rightarrow> registry \<Rightarrow> registry" where
  "Register_each [] reg = reg"
| "Register_each (p # ps) reg = Register_each ps (snd (Register p reg))"

fun registered :: "Params list \<Rightarrow> registry \<Rightarrow> Params list" where
  "registered [] reg = []"
| "registered (p # ps) reg =
     (if fst (Register p reg) = None then p # registered ps (snd (Register p reg))
      else registered ps (snd (Register p reg)))"

subsection \<open>The genesis blocks of genesis.go\<close>

definition genesisCoinbaseTx :: MsgTx where
  "genesisCoinbaseTx =
     \<lparr>MsgTx.Version = 1,
      TxIn =
        [\<lparr>PreviousOutPoint = \<lparr>OutPoint.Hash = zeroHash, Index = 0xffffffff\<rparr>,
          SignatureScript =
             [0x04, 0xff, 0xff, 0x00, 0x1d, 0x01, 0x04, 0x45,
              0x54, 0x68, 0x65, 0x20, 0x54, 0x69, 0x6d, 0x65,
              0x73, 0x20, 0x30, 0x33, 0x2f, 0x4a, 0x61, 0x6e,
              0x2f, 0x32, 0x30, 0x30, 0x39, 0x20, 0x43, 0x68,
              0x61, 0x6e, 0x63, 0x65, 0x6c, 0x6c, 0x6f, 0x72,
              0x20, 0x6f, 0x6e, 0x20, 0x62, 0x72, 0x69, 0x6e,
              0x6b, 0x20, 0x6f, 0x66, 0x20, 0x73, 0x65, 0x63,
              0x6f, 0x6e, 0x64, 0x20, 0x62, 0x61, 0x69, 0x6c,
              0x6f, 0x75, 0x74, 0x20, 0x66, 0x6f, 0x72, 0x20,
              0x62, 0x61, 0x6e, 0x6b, 0x73],
          Sequence = 0xffffffff\<rparr>],
      TxOut =
        [\<lparr>Value = 0x12a05f200,
          PkScript =
             [0x41, 0x04, 0x67, 0x8a, 0xfd, 0xb0, 0xfe, 0x55,
              0x48, 0x27, 0x19, 0x67, 0xf1, 0xa6, 0x71, 0x30,
              0xb7, 0x10, 0x5c, 0xd6, 0xa8, 0x28, 0xe0, 0x39,
              0x09, 0xa6, 0x79, 0x62, 0xe0, 0xea, 0x1f, 0x61,
              0xde, 0xb6, 0x49, 0xf6, 0xbc, 0x3f, 0x4c, 0xef,
              0x38, 0xc4, 0xf3, 0x55, 0x04, 0xe5, 0x1e, 0xc1,
              0x12, 0xde, 0x5c, 0x38, 0x4d, 0xf7, 0xba, 0x0b,
              0x8d, 0x57, 0x8a, 0x4c, 0x70, 0x2b, 0x6b, 0xf1,
              0x1d, 0x5f, 0xac]\<rparr>],
      LockTime = 0\<rparr>"

definition genesisHash :: Hash where
  "genesisHash =
     [0xb6, 0x7a, 0x40, 0xf3, 0xcd, 0x58, 0x04, 0x43,
      0x7a, 0x10, 0x8f, 0x10, 0x55, 0x33, 0x73, 0x9c,
      0x37, 0xe6, 0x22, 0x9b, 0xc1, 0xad, 0xca, 0xb3,
      0x85, 0x14, 0x0b, 0x59, 0xfd, 0x0f, 0x00, 0x00]"

definition genesisMerkleRoot :: Hash where
  "genesisMerkleRoot =
     [0xc7, 0x62, 0xa6, 0x56, 0x7f, 0x3c, 0xc0, 0x92,
      0xf0, 0x68, 0x4b, 0xb6, 0x2b, 0x7e, 0x00, 0xa8,
      0x48, 0x90, 0xb9, 0x90, 0xf0, 0x7c, 0xc7, 0x1a,
      0x6b, 0xb5, 0x8d, 0x64, 0xb9, 0x8e, 0x02, 0xe0]"

definition genesisBlock :: MsgBlock where
  "genesisBlock =
     \<lparr>Header =
        \<lparr>Version = 1,
         PrevBlock = zeroHash,
         MerkleRoot = genesisMerkleRoot,
         Timestamp = 0x52DB2D02,
         Bits = 0x1e0ffff0,
         Nonce = 0x121b062\<rparr>,
      Transactions = [genesisCoinbaseTx]\<rparr>"

definition regTestGenesisHash :: Hash where
  "regTestGenesisHash =
     [0x2e, 0x3d, 0xf2, 0x3e, 0xec, 0x5c, 0xd6, 0xa8,
      0x6e, 0xdd, 0x50, 0x95, 0x39, 0x02, 0x8e, 0x2c,
      0x3a, 0x3d, 0xc0, 0x53, 0x15, 0xeb, 0x28, 0xf2,
      0xba, 0xa4, 0x32, 0x18, 0xca, 0x08, 0x00, 0x00]"

definition regTestGenesisMerkleRoot :: Hash where
  "regTestGenesisMerkleRoot = genesisMerkleRoot"

definition regTestGenesisBlock :: MsgBlock where
  "regTestGenesisBlock =
     \<lparr>Header =
        \<lparr>Version = 1,
         PrevBlock = zeroHash,
         MerkleRoot = regTestGenesisMerkleRoot,
         Timestamp = 1417713337,
         Bits = 0x207fffff,
         Nonce = 1096447\<rparr>,
      Transactions = [genesisCoinbaseTx]\<rparr>"

definition testNet3GenesisHash :: Hash where
  "testNet3GenesisHash =
     [0x2c, 0xbc, 0xf8, 0x3b, 0x62, 0x91, 0x3d, 0x56,
      0xf6, 0x05, 0xc0, 0xe5, 0x81, 0xa4, 0x88, 0x72,
      0x83, 0x94, 0x28, 0xc9, 0x2e, 0x5e, 0xb7, 0x6c,
      0xd7, 0xad, 0x94, 0xbc, 0xaf, 0x0b, 0x00, 0x00]"

definition testNet3GenesisMerkleRoot :: Hash where
  "testNet3GenesisMerkleRoot = genesisMerkleRoot"

definition testNet3GenesisBlock :: MsgBlock where
  "testNet3GenesisBlock =
     \<lparr>Header =
        \<lparr>Version = 1,
         PrevBlock = zeroHash,
         MerkleRoot = testNet3GenesisMerkleRoot,
         Timestamp = 1390666206,
         Bits = 0x1e0ffff0,
         Nonce = 0xE627C9C3\<rparr>,
      Transactions = [genesisCoinbaseTx]\<rparr>"

subsection \<open>The built-in networks of params.go\<close>

definition bigOne :: int where
  "bigOne = 1"

definition mainPowLimit :: int where
  "mainPowLimit = push_bit 224 bigOne - bigOne"

definition regressionPowLimit :: int where
  "regressionPowLimit = push_bit 255 bigOne - bigOne"

definition testNet3PowLimit :: int where
  "testNet3PowLimit = push_bit 224 bigOne - bigOne"

definition simNetPowLimit :: int where
  "simNetPowLimit = push_bit 255 bigOne - bigOne"

text \<open>\<^verbatim>\<open>math.MaxInt64\<close>, as the \<^verbatim>\<open>uint64\<close> it is stored in.\<close>

definition MaxInt64 :: "64 word" where
  "MaxInt64 = 9223372036854775807"

text \<open>
  \<^verbatim>\<open>newHashFromStr\<close> wraps \<^verbatim>\<open>chainhash.NewHashFromStr\<close>; a checkpoint keeps the hex
  string it is given.
\<close>

definition newHashFromStr :: "string \<Rightarrow> string" where
  "newHashFromStr hexStr = hexStr"

text \<open>
  Fields a Go literal leaves out hold their zero value (the two witness address ids of
  the regression test network).
\<close>

definition MainNetParams :: "wire \<Rightarrow> Params" where
  "MainNetParams w =
     \<lparr>Name = ''mainnet'',
      Net = MainNet w,
      DefaultPort = ''9999'',
      DNSSeeds = [\<lparr>Host = ''dnsseed.dash.org'', HasFiltering = True\<rparr>,
        \<lparr>Host = ''dnsseed.dashdot.io'', HasFiltering = True\<rparr>,
        \<lparr>Host = ''dnsseed.masternode.io'', HasFiltering = False\<rparr>,
        \<lparr>Host = ''dnsseed.dashpay.io'', HasFiltering = True\<rparr>],
      GenesisBlock = genesisBlock,
      GenesisHash = genesisHash,
      PowLimit = mainPowLimit,
      PowLimitBits = 0x1d00ffff,
      BIP0034Height = 1,
      BIP0065Height = 388381,
      BIP0066Height = 363725,
      CoinbaseMaturity = 100,
      SubsidyReductionInterval = 210240,
      TargetTimespan = 24 * 60 * 60,
      TargetTimePerBlock = Second * 150,
      RetargetAdjustmentFactor = 4,
      ReduceMinDifficulty = False,
      MinDiffReductionTime = 0,
      GenerateSupported = False,
      Checkpoints =
       [\<lparr>Height = 4991,
         Hash = newHashFromStr ''000000003b01809551952460744d5dbb8fcbd6cbae3c220267bf7fa43f837367''\<rparr>,
       \<lparr>Height = 9918,
         Hash = newHashFromStr ''00000000213e229f332c0ffbe34defdaa9e74de87f2d8d1f01af8d121c3c170b''\<rparr>,
       \<lparr>Height = 16912,
         Hash = newHashFromStr ''00000000075c0d10371d55a60634da70f197548dbbfa4123e12abfcbc5738af9''\<rparr>,
       \<lparr>Height = 23912,
         Hash = newHashFromStr ''0000000000335eac6703f3b1732ec8b2f89c3ba3a7889e5767b090556bb9a276''\<rparr>,
       \<lparr>Height = 35457,
         Hash = newHashFromStr ''0000000000b0ae211be59b048df14820475ad0dd53b9ff83b010f71a77342d9f''\<rparr>,
       \<lparr>Height = 45479,
         Hash = newHashFromStr ''000000000063d411655d590590e16960f15ceea4257122ac430c6fbe39fbf02d''\<rparr>,
       \<lparr>Height = 55895,
         Hash = newHashFromStr ''0000000000ae4c53a43639a4ca027282f69da9c67ba951768a20415b6439a2d7''\<rparr>,
       \<lparr>Height = 68899,
         Hash = newHashFromStr ''0000000000194ab4d3d9eeb1f2f792f21bb39ff767cb547fe977640f969d77b7''\<rparr>,
       \<lparr>Height = 74619,
         Hash = newHashFromStr ''000000000011d28f38f05d01650a502cc3f4d0e793fbc26e2a2ca71f07dc3842''\<rparr>,
       \<lparr>Height = 75095,
         Hash = newHashFromStr ''0000000000193d12f6ad352a9996ee58ef8bdc4946818a5fec5ce99c11b87f0d''\<rparr>,
       \<lparr>Height = 88805,
         Hash = newHashFromStr ''00000000001392f1652e9bf45cd8bc79dc60fe935277cd11538565b4a94fa85f''\<rparr>,
       \<lparr>Height = 107996,
         Hash = newHashFromStr ''00000000000a23840ac16115407488267aa3da2b9bc843e301185b7d17e4dc40''\<rparr>,
       \<lparr>Height = 137993,
         Hash = newHashFromStr ''00000000000cf69ce152b1bffdeddc59188d7a80879210d6e5c9503011929c3c''\<rparr>,
       \<lparr>Height = 167996,
         Hash = newHashFromStr ''000000000009486020a80f7f2cc065342b0c2fb59af5e090cd813dba68ab0fed''\<rparr>,
       \<lparr>Height = 207992,
         Hash = newHashFromStr ''00000000000d85c22be098f74576ef00b7aa00c05777e966aff68a270f1e01a5''\<rparr>,
       \<lparr>Height = 312645,
         Hash = newHashFromStr ''0000000000059dcb71ad35a9e40526c44e7aae6c99169a9e7017b7d84b1c2daf''\<rparr>,
       \<lparr>Height = 407452,
         Hash = newHashFromStr ''000000000003c6a87e73623b9d70af7cd908ae22fee466063e4ffc20be1d2dbc''\<rparr>,
       \<lparr>Height = 523412,
         Hash = newHashFromStr ''000000000000e54f036576a10597e0e42cc22a5159ce572f999c33975e121d4d''\<rparr>,
       \<lparr>Height = 523930,
         Hash = newHashFromStr ''0000000000000bccdb11c2b1cfb0ecab452abf267d89b7f46eaf2d54ce6e652c''\<rparr>,
       \<lparr>Height = 750000,
         Hash = newHashFromStr ''00000000000000b4181bbbdddbae464ce11fede5d0292fb63fdede1e7c8ab21c''\<rparr>],
      RuleChangeActivationThreshold = 1916,
      MinerConfirmationWindow = 2016,
      Deployments =
       [\<lparr>BitNumber = 28, StartTime = 1199145601, ExpireTime = 1230767999\<rparr>,
        \<lparr>BitNumber = 0, StartTime = 1486252800, ExpireTime = 1517788800\<rparr>,
        \<lparr>BitNumber = 1, StartTime = 1508025600, ExpireTime = 1539561600\<rparr>],
      RelayNonStdTxs = False,
      Bech32HRPSegwit = ''bc'',
      PubKeyHashAddrID = 0x4c,
      ScriptHashAddrID = 0x10,
      PrivateKeyID = 0xcc,
      WitnessPubKeyHashAddrID = 0x06,
      WitnessScriptHashAddrID = 0x0A,
      HDPrivateKeyID = (0x04, 0x88, 0xad, 0xe4),
      HDPublicKeyID = (0x04, 0x88, 0xb2, 0x1e),
      HDCoinType = 5\<rparr>"

definition RegressionNetParams :: "wire \<Rightarrow> Params" where
  "RegressionNetParams w =
     \<lparr>Name = ''regtest'',
      Net = TestNet w,
      DefaultPort = ''19994'',
      DNSSeeds = [],
      GenesisBlock = regTestGenesisBlock,
      GenesisHash = regTestGenesisHash,
      PowLimit = regressionPowLimit,
      PowLimitBits = 0x207fffff,
      BIP0034Height = 100000000,
      BIP0065Height = 1351,
      BIP0066Height = 1251,
      CoinbaseMaturity = 100,
      SubsidyReductionInterval = 150,
      TargetTimespan = Hour * 24 * 1,
      TargetTimePerBlock = Second * 150,
      RetargetAdjustmentFactor = 4,
      ReduceMinDifficulty = True,
      MinDiffReductionTime = Minute * 20,
      GenerateSupported = True,
      Checkpoints =
       [],
      RuleChangeActivationThreshold = 108,
      MinerConfirmationWindow = 144,
      Deployments =
       [\<lparr>BitNumber = 28, StartTime = 0, ExpireTime = MaxInt64\<rparr>,
        \<lparr>BitNumber = 0, StartTime = 0, ExpireTime = MaxInt64\<rparr>,
        \<lparr>BitNumber = 1, StartTime = 0, ExpireTime = MaxInt64\<rparr>],
      RelayNonStdTxs = True,
      Bech32HRPSegwit = ''tb'',
      PubKeyHashAddrID = 0x8c,
      ScriptHashAddrID = 0x13,
      PrivateKeyID = 0xef,
      WitnessPubKeyHashAddrID = 0,
      WitnessScriptHashAddrID = 0,
      HDPrivateKeyID = (0x04, 0x35, 0x83, 0x94),
      HDPublicKeyID = (0x04, 0x35, 0x87, 0xcf),
      HDCoinType = 1\<rparr>"

definition TestNet3Params :: "wire \<Rightarrow> Params" where
  "TestNet3Params w =
     \<lparr>Name = ''testnet3'',
      Net = TestNet3 w,
      DefaultPort = ''19999'',
      DNSSeeds = [\<lparr>Host = ''testnet-seed.dashdot.io'', HasFiltering = True\<rparr>,
        \<lparr>Host = ''test.dnsseed.masternode.io'', HasFiltering = True\<rparr>],
      GenesisBlock = testNet3GenesisBlock,
      GenesisHash = testNet3GenesisHash,
      PowLimit = testNet3PowLimit,
      PowLimitBits = 0x1d00ffff,
      BIP0034Height = 1,
      BIP0065Height = 581885,
      BIP0066Height = 330776,
      CoinbaseMaturity = 100,
      SubsidyReductionInterval = 210240,
      TargetTimespan = Hour * 24 * 1,
      TargetTimePerBlock = Second * 150,
      RetargetAdjustmentFactor = 4,
      ReduceMinDifficulty = True,
      MinDiffReductionTime = Minute * 20,
      GenerateSupported = False,
      Checkpoints =
       [\<lparr>Height = 261,
         Hash = newHashFromStr ''00000c26026d0815a7e2ce4fa270775f61403c040647ff2c3091f99e894a4618''\<rparr>,
       \<lparr>Height = 1999,
         Hash = newHashFromStr ''00000052e538d27fa53693efe6fb6892a0c1d26c0235f599171c48a3cce553b1''\<rparr>,
       \<lparr>Height = 2999,
         Hash = newHashFromStr ''0000024bc3f4f4cb30d29827c13d921ad77d2c6072e586c7f60d83c2722cdcc5''\<rparr>],
      RuleChangeActivationThreshold = 1512,
      MinerConfirmationWindow = 2016,
      Deployments =
       [\<lparr>BitNumber = 28, StartTime = 1199145601, ExpireTime = 1230767999\<rparr>,
        \<lparr>BitNumber = 0, StartTime = 1456790400, ExpireTime = 1493596800\<rparr>,
        \<lparr>BitNumber = 1, StartTime = 1462060800, ExpireTime = 1493596800\<rparr>],
      RelayNonStdTxs = True,
      Bech32HRPSegwit = ''tb'',
      PubKeyHashAddrID = 0x8c,
      ScriptHashAddrID = 0x13,
      PrivateKeyID = 0xef,
      WitnessPubKeyHashAddrID = 0x03,
      WitnessScriptHashAddrID = 0x28,
      HDPrivateKeyID = (0x04, 0x35, 0x83, 0x94),
      HDPublicKeyID = (0x04, 0x35, 0x87, 0xcf),
      HDCoinType = 1\<rparr>"

text \<open>
  Package initialisation: the package-level variables get their initial values (the maps
  are empty), then \<^verbatim>\<open>init\<close> runs.
\<close>

definition package_init :: "wire \<Rightarrow> panic + registry" where
  "package_init w =
     init (MainNetParams w) (TestNet3Params w) (RegressionNetParams w) empty_registry"

text \<open>
  An assignment of three pairwise distinct magics to the constants of package wire, for
  running the definitions on concrete inputs.
\<close>

definition sample_wire :: wire where
  "sample_wire = \<lparr>MainNet = 0xbd6b0cbf, TestNet = 0xdcb7c1fc, TestNet3 = 0xffcae2ce\<rparr>"

section \<open>Properties\<close>

subsection \<open>The fields the registry reads, and the registry after a run of calls\<close>

lemma MainNetParams_fields:
  "Net (MainNetParams w) = MainNet w"
  "PubKeyHashAddrID (MainNetParams w) = 0x4c"
  "ScriptHashAddrID (MainNetParams w) = 0x10"
  "Bech32HRPSegwit (MainNetParams w) = ''bc''"
  "HDPrivateKeyID (MainNetParams w) = (0x04, 0x88, 0xad, 0xe4)"
  "HDPublicKeyID (MainNetParams w) = (0x04, 0x88, 0xb2, 0x1e)"
  by (simp_all add: MainNetParams_def)

lemma RegressionNetParams_fields:
  "Net (RegressionNetParams w) = TestNet w"
  "PubKeyHashAddrID (RegressionNetParams w) = 0x8c"
  "ScriptHashAddrID (RegressionNetParams w) = 0x13"
  "Bech32HRPSegwit (RegressionNetParams w) = ''tb''"
  "HDPrivateKeyID (RegressionNetParams w) = (0x04, 0x35, 0x83, 0x94)"
  "HDPublicKeyID (RegressionNetParams w) = (0x04, 0x35, 0x87, 0xcf)"
  by (simp_all add: RegressionNetParams_def)

lemma TestNet3Params_fields:
  "Net (TestNet3Params w) = TestNet3 w"
  "PubKeyHashAddrID (TestNet3Params w) = 0x8c"
  "ScriptHashAddrID (TestNet3Params w) = 0x13"
  "Bech32HRPSegwit (TestNet3Params w) = ''tb''"
  "HDPrivateKeyID (TestNet3Params w) = (0x04, 0x35, 0x83, 0x94)"
  "HDPublicKeyID (TestNet3Params w) = (0x04, 0x35, 0x87, 0xcf)"
  by (simp_all add: TestNet3Params_def)

lemma sample_wire_fields:
  "MainNet sample_wire = 0xbd6b0cbf"
  "TestNet sample_wire = 0xdcb7c1fc"
  "TestNet3 sample_wire = 0xffcae2ce"
  by (simp_all add: sample_wire_def)

lemma Register_fresh:
  "Net ps \<notin> registeredNets reg \<Longrightarrow>
   Register ps reg =
     (None,
      reg\<lparr>registeredNets := insert (Net ps) (registeredNets reg),
          pubKeyHashAddrIDs := insert (PubKeyHashAddrID ps) (pubKeyHashAddrIDs reg),
          scriptHashAddrIDs := insert (ScriptHashAddrID ps) (scriptHashAddrIDs reg),
          hdPrivToPubKeyIDs :=
            (hdPrivToPubKeyIDs reg)(HDPrivateKeyID ps \<mapsto> slice4 (HDPublicKeyID ps)),
          bech32SegwitPrefixes := insert (Bech32HRPSegwit ps @ ''1'') (bech32SegwitPrefixes reg)\<rparr>)"
  by (simp add: Register_def)

lemma fst_Register: "(fst (Register ps reg) = None) = (Net ps \<notin> registeredNets reg)"
  by (simp add: Register_def)

text \<open>Each index after a run of calls, in terms of the calls that succeeded.\<close>

lemma registeredNets_Register_each:
  "registeredNets (Register_each pss reg) = registeredNets reg \<union> Net ` set (registered pss reg)"
  by (induction pss arbitrary: reg) (auto simp: Register_def)

lemma pubKeyHashAddrIDs_Register_each:
  "pubKeyHashAddrIDs (Register_each pss reg) =
     pubKeyHashAddrIDs reg \<union> PubKeyHashAddrID ` set (registered pss reg)"
  by (induction pss arbitrary: reg) (auto simp: Register_def)

lemma scriptHashAddrIDs_Register_each:
  "scriptHashAddrIDs (Register_each pss reg) =
     scriptHashAddrIDs reg \<union> ScriptHashAddrID ` set (registered pss reg)"
  by (induction pss arbitrary: reg) (auto simp: Register_def)

lemma bech32SegwitPrefixes_Register_each:
  "bech32SegwitPrefixes (Register_each pss reg) =
     bech32SegwitPrefixes reg \<union> (\<lambda>q. Bech32HRPSegwit q @ ''1'') ` set (registered pss reg)"
  by (induction pss arbitrary: reg) (auto simp: Register_def)

lemma hdPrivToPubKeyIDs_Register_each:
  "hdPrivToPubKeyIDs (Register_each pss reg) k =
     (case filter (\<lambda>q. HDPrivateKeyID q = k) (registered pss reg) of
        [] \<Rightarrow> hdPrivToPubKeyIDs reg k
      | q # qs \<Rightarrow> Some (slice4 (HDPublicKeyID (last (q # qs)))))"
proof (induction pss arbitrary: reg)
  case Nil
  show ?case by simp
next
  case (Cons p pss)
  show ?case
  proof (cases "Net p \<in> registeredNets reg")
    case True
    then show ?thesis using Cons.IH [of reg] by (simp add: Register_def)
  next
    case False
    then show ?thesis
      using Cons.IH [of "snd (Register p reg)"]
      by (simp add: Register_fresh fst_Register split: list.splits)
  qed
qed

lemma builtin_registered:
  assumes "distinct [MainNet w, TestNet3 w, TestNet w]"
  shows "registered [MainNetParams w, TestNet3Params w, RegressionNetParams w] empty_registry =
           [MainNetParams w, TestNet3Params w, RegressionNetParams w]"
  using assms
  by (auto simp add: Register_def empty_registry_def MainNetParams_fields TestNet3Params_fields
      RegressionNetParams_fields)

lemma builtin_Register_each:
  assumes "distinct [MainNet w, TestNet3 w, TestNet w]"
  shows "Register_each [MainNetParams w, TestNet3Params w, RegressionNetParams w] empty_registry =
           \<lparr>registeredNets = {TestNet w, TestNet3 w, MainNet w},
            pubKeyHashAddrIDs = {0x8c, 0x4c},
            scriptHashAddrIDs = {0x13, 0x10},
            bech32SegwitPrefixes = {''tb1'', ''bc1''},
            hdPrivToPubKeyIDs =
              [(0x04, 0x88, 0xad, 0xe4) \<mapsto> [0x04, 0x88, 0xb2, 0x1e],
               (0x04, 0x35, 0x83, 0x94) \<mapsto> [0x04, 0x35, 0x87, 0xcf]]\<rparr>"
  using assms
  by (auto simp add: Register_def empty_registry_def MainNetParams_fields TestNet3Params_fields
      RegressionNetParams_fields)

lemma sample_wire_distinct:
  "distinct [MainNet sample_wire, TestNet3 sample_wire, TestNet sample_wire]"
  by (simp add: sample_wire_fields)

lemma last_filter_same:
  assumes "ps \<in> set xs" and "\<forall>q\<in>set xs. f q = f ps \<longrightarrow> g q = g ps"
  shows "g (last (filter (\<lambda>q. f q = f ps) xs)) = g ps"
proof -
  have ne: "filter (\<lambda>q. f q = f ps) xs \<noteq> []"
    using assms(1) by (auto simp: filter_empty_conv)
  then have "last (filter (\<lambda>q. f q = f ps) xs) \<in> set (filter (\<lambda>q. f q = f ps) xs)"
    by (rule last_in_set)
  then show ?thesis using assms(2) by simp
qed


lemma length_slice4: "length (slice4 x) = 4"
  by (cases x) simp








lemma MainNetParams_tables:
  "map Height (Checkpoints (MainNetParams w)) =
     [4991, 9918, 16912, 23912, 35457, 45479, 55895, 68899, 74619, 75095, 88805, 107996,
      137993, 167996, 207992, 312645, 407452, 523412, 523930, 750000]"
  by (simp add: MainNetParams_def)

lemma mustRegister_fresh:
  "Net ps \<notin> registeredNets reg \<Longrightarrow> mustRegister ps reg = Inr (snd (Register ps reg))"
  by (simp add: mustRegister_def Register_def)

lemma mustRegister_known:
  "Net ps \<in> registeredNets reg \<Longrightarrow>
   mustRegister ps reg = Inl (Panic ''failed to register network: duplicate DASH network'')"
  by (simp add: mustRegister_def Register_def)

lemma registeredNets_Register:
  "registeredNets (snd (Register ps reg)) = insert (Net ps) (registeredNets reg)"
  by (auto simp: Register_def)

subsection \<open>The claims\<close>

text \<open>
  C1. When the network magic of \<open>ps\<close> is already registered, \<open>Register ps\<close> returns
  \<open>ErrDuplicateNet\<close> and the registry after the call is the registry before it: the set
  of registered magics and the four indices are all unchanged.
\<close>

theorem Register_duplicate_unchanged:
  assumes "Net ps \<in> registeredNets reg"
  shows "Register ps reg = (Some ErrDuplicateNet, reg)"
  using assms by (simp add: Register_def)

theorem Register_duplicate_unchanged_witness:
  "Register (MainNetParams sample_wire) (snd (Register (MainNetParams sample_wire) empty_registry))
   = (Some ErrDuplicateNet, snd (Register (MainNetParams sample_wire) empty_registry))"
  by (rule Register_duplicate_unchanged)
     (simp add: Register_def empty_registry_def)

text \<open>
  C2. After any run of \<open>Register\<close> calls from any registry, every parameter set \<open>ps\<close>
  whose call succeeded has its pubkey-hash id, its script-hash id and its bech32 prefix
  with \<open>''1''\<close> appended in the indices, and the HD index has an entry for its private
  key id. That entry is the public key id of the parameter set registered last among
  those with the same private key id: it is the public key id of \<open>ps\<close> itself, and
  \<open>HDPrivateKeyToPublicKeyID\<close> returns it, as long as no registered parameter set with
  the same private key id has another public key id. Since \<open>ps\<close> may stand anywhere in
  the run, this holds after every later call as well.
\<close>

theorem registered_entries_indexed:
  assumes "ps \<in> set (registered pss reg)"
  shows "IsPubKeyHashAddrID (Register_each pss reg) (PubKeyHashAddrID ps) \<and>
         IsScriptHashAddrID (Register_each pss reg) (ScriptHashAddrID ps) \<and>
         Bech32HRPSegwit ps @ ''1'' \<in> bech32SegwitPrefixes (Register_each pss reg) \<and>
         hdPrivToPubKeyIDs (Register_each pss reg) (HDPrivateKeyID ps) =
           Some (slice4 (HDPublicKeyID
             (last (filter (\<lambda>q. HDPrivateKeyID q = HDPrivateKeyID ps) (registered pss reg))))) \<and>
         ((\<forall>q\<in>set (registered pss reg).
              HDPrivateKeyID q = HDPrivateKeyID ps \<longrightarrow> HDPublicKeyID q = HDPublicKeyID ps) \<longrightarrow>
          HDPrivateKeyToPublicKeyID (Register_each pss reg) (slice4 (HDPrivateKeyID ps)) =
            Inr (slice4 (HDPublicKeyID ps)))"
proof -
  let ?same = "filter (\<lambda>q. HDPrivateKeyID q = HDPrivateKeyID ps) (registered pss reg)"
  have pk: "IsPubKeyHashAddrID (Register_each pss reg) (PubKeyHashAddrID ps)"
    using assms by (simp add: IsPubKeyHashAddrID_def pubKeyHashAddrIDs_Register_each)
  have sh: "IsScriptHashAddrID (Register_each pss reg) (ScriptHashAddrID ps)"
    using assms by (simp add: IsScriptHashAddrID_def scriptHashAddrIDs_Register_each)
  have b32: "Bech32HRPSegwit ps @ ''1'' \<in> bech32SegwitPrefixes (Register_each pss reg)"
    using assms by (auto simp: bech32SegwitPrefixes_Register_each)
  have "?same \<noteq> []"
    using assms by (auto simp: filter_empty_conv)
  then have hd: "hdPrivToPubKeyIDs (Register_each pss reg) (HDPrivateKeyID ps) =
      Some (slice4 (HDPublicKeyID (last ?same)))"
    by (simp add: hdPrivToPubKeyIDs_Register_each split: list.splits)
  have own: "HDPrivateKeyToPublicKeyID (Register_each pss reg) (slice4 (HDPrivateKeyID ps)) =
      Inr (slice4 (HDPublicKeyID ps))"
    if "\<forall>q\<in>set (registered pss reg).
          HDPrivateKeyID q = HDPrivateKeyID ps \<longrightarrow> HDPublicKeyID q = HDPublicKeyID ps"
  proof -
    have "HDPublicKeyID (last ?same) = HDPublicKeyID ps"
      using assms that by (rule last_filter_same)
    moreover have "copy4 (0, 0, 0, 0) (slice4 (HDPrivateKeyID ps)) = HDPrivateKeyID ps"
      by (cases "HDPrivateKeyID ps") simp
    moreover have "length (slice4 (HDPrivateKeyID ps)) = 4"
      by (cases "HDPrivateKeyID ps") simp
    ultimately show ?thesis
      using hd by (simp add: HDPrivateKeyToPublicKeyID_def)
  qed
  from pk sh b32 hd own show ?thesis by blast
qed

theorem registered_entries_indexed_witness:
  "IsPubKeyHashAddrID
     (Register_each [MainNetParams sample_wire, TestNet3Params sample_wire,
        RegressionNetParams sample_wire] empty_registry) 0x4c \<and>
   IsScriptHashAddrID
     (Register_each [MainNetParams sample_wire, TestNet3Params sample_wire,
        RegressionNetParams sample_wire] empty_registry) 0x10 \<and>
   ''bc1'' \<in> bech32SegwitPrefixes
     (Register_each [MainNetParams sample_wire, TestNet3Params sample_wire,
        RegressionNetParams sample_wire] empty_registry) \<and>
   HDPrivateKeyToPublicKeyID
     (Register_each [MainNetParams sample_wire, TestNet3Params sample_wire,
        RegressionNetParams sample_wire] empty_registry)
     [0x04, 0x88, 0xad, 0xe4] = Inr [0x04, 0x88, 0xb2, 0x1e]"
proof -
  note reg = builtin_registered [OF sample_wire_distinct]
  have mem: "MainNetParams sample_wire \<in>
      set (registered [MainNetParams sample_wire, TestNet3Params sample_wire,
        RegressionNetParams sample_wire] empty_registry)"
    unfolding reg by simp
  show ?thesis
    using registered_entries_indexed [OF mem, unfolded reg]
    by (simp add: MainNetParams_fields TestNet3Params_fields RegressionNetParams_fields)
qed

text \<open>
  The claim as first stated, with the HD index mapping the private key id of every
  registered \<open>ps\<close> to the public key id of \<open>ps\<close> for good, fails: a second network
  with a fresh magic, the private key id of testnet3 and another public key id registers,
  and the entry of testnet3 is overwritten.
\<close>

theorem hd_index_overwritten_counterexample:
  "fst (Register (TestNet3Params sample_wire) empty_registry) = None \<and>
   fst (Register
          ((TestNet3Params sample_wire)\<lparr>Net := 0x01020304, HDPublicKeyID := (0x04, 0x88, 0xb2, 0x1e)\<rparr>)
          (snd (Register (TestNet3Params sample_wire) empty_registry))) = None \<and>
   hdPrivToPubKeyIDs
     (snd (Register
          ((TestNet3Params sample_wire)\<lparr>Net := 0x01020304, HDPublicKeyID := (0x04, 0x88, 0xb2, 0x1e)\<rparr>)
          (snd (Register (TestNet3Params sample_wire) empty_registry))))
     (HDPrivateKeyID (TestNet3Params sample_wire))
     = Some [0x04, 0x88, 0xb2, 0x1e] \<and>
   slice4 (HDPublicKeyID (TestNet3Params sample_wire)) = [0x04, 0x35, 0x87, 0xcf]"
  by (simp add: Register_def empty_registry_def TestNet3Params_fields sample_wire_fields)







text \<open>
  C6. In each built-in parameter set the checkpoint heights are strictly increasing, as
  signed 32-bit integers: each height is below all later ones, so every adjacent pair is
  in strict order. This holds for the 20 heights 4991, 9918, 16912, ..., 750000 of the
  main network and for 261, 1999, 2999 of testnet3; the regression test network has no
  checkpoints.
\<close>

theorem builtin_checkpoints_increasing:
  "sorted_wrt (<s) (map Height (Checkpoints (MainNetParams w))) \<and>
   map Height (Checkpoints (TestNet3Params w)) = [261, 1999, 2999] \<and>
   sorted_wrt (<s) (map Height (Checkpoints (TestNet3Params w))) \<and>
   Checkpoints (RegressionNetParams w) = [] \<and>
   sorted_wrt (<s) (map Height (Checkpoints (RegressionNetParams w)))"
proof -
  have main: "sorted_wrt (<s) (map Height (Checkpoints (MainNetParams w)))"
    unfolding MainNetParams_tables by (simp add: word_sless_alt)
  have test: "map Height (Checkpoints (TestNet3Params w)) = [261, 1999, 2999]"
    by (simp add: TestNet3Params_def)
  have test_sorted: "sorted_wrt (<s) (map Height (Checkpoints (TestNet3Params w)))"
    unfolding test by (simp add: word_sless_alt)
  have reg: "Checkpoints (RegressionNetParams w) = []"
    by (simp add: RegressionNetParams_def)
  from main test test_sorted reg show ?thesis by simp
qed

text \<open>
  C7. In each built-in parameter set the deployments table has \<open>DefinedDeployments\<close>
  entries (TestDummy, CSV, Segwit), and every entry has \<open>StartTime \<le> ExpireTime\<close> as
  unsigned 64-bit integers.
\<close>

theorem builtin_deployments_start_before_expire:
  "list_all (\<lambda>d. StartTime d \<le> ExpireTime d) (Deployments (MainNetParams w)) \<and>
   length (Deployments (MainNetParams w)) = DefinedDeployments \<and>
   list_all (\<lambda>d. StartTime d \<le> ExpireTime d) (Deployments (RegressionNetParams w)) \<and>
   length (Deployments (RegressionNetParams w)) = DefinedDeployments \<and>
   list_all (\<lambda>d. StartTime d \<le> ExpireTime d) (Deployments (TestNet3Params w)) \<and>
   length (Deployments (TestNet3Params w)) = DefinedDeployments"
proof -
  have "list_all (\<lambda>d. StartTime d \<le> ExpireTime d) (Deployments (MainNetParams w))"
    by (simp add: MainNetParams_def)
  moreover have "list_all (\<lambda>d. StartTime d \<le> ExpireTime d) (Deployments (RegressionNetParams w))"
    by (simp add: RegressionNetParams_def)
  moreover have "list_all (\<lambda>d. StartTime d \<le> ExpireTime d) (Deployments (TestNet3Params w))"
    by (simp add: TestNet3Params_def)
  moreover have "length (Deployments (MainNetParams w)) = DefinedDeployments"
    by (simp add: MainNetParams_def DefinedDeployments_def)
  moreover have "length (Deployments (RegressionNetParams w)) = DefinedDeployments"
    by (simp add: RegressionNetParams_def DefinedDeployments_def)
  moreover have "length (Deployments (TestNet3Params w)) = DefinedDeployments"
    by (simp add: TestNet3Params_def DefinedDeployments_def)
  ultimately show ?thesis by simp
qed

text \<open>
  C9. A parameter set whose magic is not registered yet registers, whatever its other
  fields are: \<open>Register\<close> tests nothing but the magic. The regression test network and
  testnet3 have the same pubkey-hash id \<^verbatim>\<open>0x8c\<close> and script-hash id \<^verbatim>\<open>0x13\<close>; when their
  magics differ and are both fresh, both register one after the other, and then
  \<open>IsPubKeyHashAddrID 0x8c\<close> and \<open>IsScriptHashAddrID 0x13\<close> are true. Both results are
  plain booleans and name no network.
\<close>

theorem Register_needs_only_fresh_magic:
  "(Net ps \<notin> registeredNets reg \<longrightarrow>
      fst (Register ps reg) = None \<and>
      Net ps \<in> registeredNets (snd (Register ps reg)) \<and>
      IsPubKeyHashAddrID (snd (Register ps reg)) (PubKeyHashAddrID ps) \<and>
      IsScriptHashAddrID (snd (Register ps reg)) (ScriptHashAddrID ps)) \<and>
   PubKeyHashAddrID (RegressionNetParams w) = 0x8c \<and>
   PubKeyHashAddrID (TestNet3Params w) = 0x8c \<and>
   ScriptHashAddrID (RegressionNetParams w) = 0x13 \<and>
   ScriptHashAddrID (TestNet3Params w) = 0x13 \<and>
   (TestNet3 w \<notin> registeredNets reg' \<and> TestNet w \<notin> registeredNets reg' \<and>
    TestNet3 w \<noteq> TestNet w \<longrightarrow>
      fst (Register (TestNet3Params w) reg') = None \<and>
      fst (Register (RegressionNetParams w) (snd (Register (TestNet3Params w) reg'))) = None \<and>
      IsPubKeyHashAddrID
        (snd (Register (RegressionNetParams w) (snd (Register (TestNet3Params w) reg')))) 0x8c \<and>
      IsScriptHashAddrID
        (snd (Register (RegressionNetParams w) (snd (Register (TestNet3Params w) reg')))) 0x13)"
  by (auto simp: Register_def IsPubKeyHashAddrID_def IsScriptHashAddrID_def
      TestNet3Params_fields RegressionNetParams_fields)

theorem Register_needs_only_fresh_magic_witness:
  "fst (Register (RegressionNetParams sample_wire)
          (snd (Register (TestNet3Params sample_wire) empty_registry))) = None \<and>
   IsPubKeyHashAddrID
     (snd (Register (RegressionNetParams sample_wire)
        (snd (Register (TestNet3Params sample_wire) empty_registry)))) 0x8c \<and>
   IsScriptHashAddrID
     (snd (Register (RegressionNetParams sample_wire)
        (snd (Register (TestNet3Params sample_wire) empty_registry)))) 0x13 \<and>
   PubKeyHashAddrID (RegressionNetParams sample_wire) = PubKeyHashAddrID (TestNet3Params sample_wire) \<and>
   Bech32HRPSegwit (RegressionNetParams sample_wire) = Bech32HRPSegwit (TestNet3Params sample_wire) \<and>
   HDPrivateKeyID (RegressionNetParams sample_wire) = HDPrivateKeyID (TestNet3Params sample_wire)"
  using Register_needs_only_fresh_magic
    [of "RegressionNetParams sample_wire"
        "snd (Register (TestNet3Params sample_wire) empty_registry)" sample_wire empty_registry]
  by (simp add: registeredNets_Register empty_registry_def sample_wire_fields
      TestNet3Params_fields RegressionNetParams_fields)

subsection \<open>Letter case of a registered prefix\<close>

text \<open>
  \<open>Register\<close> keeps the letter case of the prefix it is given, while
  \<open>IsBech32SegwitPrefix\<close> lower-cases its argument: a network registered with the prefix
  \<open>''BC''\<close> is found under neither \<open>''BC1''\<close> nor \<open>''bc1''\<close>, although the doc comment
  of \<open>IsBech32SegwitPrefix\<close> promises the prefixes of all registered networks to be known.
\<close>

lemma upper_case_prefix_not_found:
  "fst (Register ((MainNetParams sample_wire)\<lparr>Bech32HRPSegwit := ''BC''\<rparr>) empty_registry) = None \<and>
   \<not> IsBech32SegwitPrefix id
     (snd (Register ((MainNetParams sample_wire)\<lparr>Bech32HRPSegwit := ''BC''\<rparr>) empty_registry))
     ''BC1'' \<and>
   \<not> IsBech32SegwitPrefix id
     (snd (Register ((MainNetParams sample_wire)\<lparr>Bech32HRPSegwit := ''BC''\<rparr>) empty_registry))
     ''bc1''"
  by (simp add: Register_def empty_registry_def MainNetParams_fields sample_wire_fields
      IsBech32SegwitPrefix_def ToLower_def isASCII_def isUpper_def lowerByte_def char_of_def)

subsection \<open>Initialisation\<close>

text \<open>
  \<open>Register\<close> reads neither \<open>GenesisBlock\<close> nor \<open>GenesisHash\<close>, so the outcome of \<open>init\<close>
  is the same whatever these two fields of the three parameter sets hold.
\<close>

lemma init_ignores_genesis:
  "Register (ps\<lparr>GenesisBlock := b, GenesisHash := h\<rparr>) reg = Register ps reg \<and>
   init (m\<lparr>GenesisBlock := b1, GenesisHash := h1\<rparr>) (t\<lparr>GenesisBlock := b2, GenesisHash := h2\<rparr>)
        (r\<lparr>GenesisBlock := b3, GenesisHash := h3\<rparr>) reg
     = init m t r reg"
  by (simp add: init_def mustRegister_def Register_def)

text \<open>
  With the three magics of \<open>sample_wire\<close>, \<open>init\<close> gives the same registry for the
  hard-coded \<open>genesisHash\<close> and for the all-zero hash in its place.
\<close>

lemma init_with_zero_genesis_hash:
  "zeroHash \<noteq> GenesisHash (MainNetParams sample_wire) \<and>
   init ((MainNetParams sample_wire)\<lparr>GenesisHash := zeroHash\<rparr>) (TestNet3Params sample_wire)
        (RegressionNetParams sample_wire) empty_registry
     = Inr (Register_each [MainNetParams sample_wire, TestNet3Params sample_wire,
              RegressionNetParams sample_wire] empty_registry) \<and>
   init (MainNetParams sample_wire) (TestNet3Params sample_wire)
        (RegressionNetParams sample_wire) empty_registry
     = Inr (Register_each [MainNetParams sample_wire, TestNet3Params sample_wire,
              RegressionNetParams sample_wire] empty_registry)"
proof -
  have "zeroHash ! 0 = 0"
    by (simp add: zeroHash_def HashSize_def)
  moreover have "GenesisHash (MainNetParams sample_wire) ! 0 = 0xb6"
    by (simp add: MainNetParams_def genesisHash_def)
  ultimately have "zeroHash \<noteq> GenesisHash (MainNetParams sample_wire)"
    by auto
  moreover have "init (MainNetParams sample_wire) (TestNet3Params sample_wire)
        (RegressionNetParams sample_wire) empty_registry
     = Inr (Register_each [MainNetParams sample_wire, TestNet3Params sample_wire,
              RegressionNetParams sample_wire] empty_registry)"
    by (simp add: init_def mustRegister_def Register_def empty_registry_def
        MainNetParams_fields TestNet3Params_fields RegressionNetParams_fields sample_wire_fields)
  moreover have "init ((MainNetParams sample_wire)\<lparr>GenesisHash := zeroHash\<rparr>)
        (TestNet3Params sample_wire) (RegressionNetParams sample_wire) empty_registry
     = init (MainNetParams sample_wire) (TestNet3Params sample_wire)
        (RegressionNetParams sample_wire) empty_registry"
    by (simp add: init_def mustRegister_def Register_def)
  ultimately show ?thesis by simp
qed

text \<open>
  \<open>init\<close> in terms of the three magics of package wire: when they are pairwise distinct,
  each of the three \<open>mustRegister\<close> calls returns a registry and package initialisation
  ends with the registry of the three built-in networks; when two of them are equal, the
  second registration of that magic panics.
\<close>

lemma package_init_succeeds:
  assumes "distinct [MainNet w, TestNet3 w, TestNet w]"
  shows "mustRegister (MainNetParams w) empty_registry
           = Inr (Register_each [MainNetParams w] empty_registry) \<and>
         mustRegister (TestNet3Params w) (Register_each [MainNetParams w] empty_registry)
           = Inr (Register_each [MainNetParams w, TestNet3Params w] empty_registry) \<and>
         mustRegister (RegressionNetParams w)
             (Register_each [MainNetParams w, TestNet3Params w] empty_registry)
           = Inr (Register_each [MainNetParams w, TestNet3Params w, RegressionNetParams w]
                empty_registry) \<and>
         package_init w
           = Inr (Register_each [MainNetParams w, TestNet3Params w, RegressionNetParams w]
                empty_registry) \<and>
         (\<forall>p. package_init w \<noteq> Inl p)"
proof -
  have m: "Net (MainNetParams w) \<notin> registeredNets empty_registry"
    by (simp add: empty_registry_def)
  have t: "Net (TestNet3Params w) \<notin> registeredNets (snd (Register (MainNetParams w) empty_registry))"
    using assms
    by (auto simp: registeredNets_Register empty_registry_def MainNetParams_fields TestNet3Params_fields)
  have r: "Net (RegressionNetParams w) \<notin> registeredNets
      (snd (Register (TestNet3Params w) (snd (Register (MainNetParams w) empty_registry))))"
    using assms
    by (auto simp: registeredNets_Register empty_registry_def MainNetParams_fields
        TestNet3Params_fields RegressionNetParams_fields)
  show ?thesis
    by (simp add: package_init_def init_def mustRegister_fresh [OF m] mustRegister_fresh [OF t]
        mustRegister_fresh [OF r])
qed

lemma package_init_sample:
  "package_init sample_wire =
     Inr \<lparr>registeredNets = {0xdcb7c1fc, 0xffcae2ce, 0xbd6b0cbf},
          pubKeyHashAddrIDs = {0x8c, 0x4c},
          scriptHashAddrIDs = {0x13, 0x10},
          bech32SegwitPrefixes = {''tb1'', ''bc1''},
          hdPrivToPubKeyIDs =
            [(0x04, 0x88, 0xad, 0xe4) \<mapsto> [0x04, 0x88, 0xb2, 0x1e],
             (0x04, 0x35, 0x83, 0x94) \<mapsto> [0x04, 0x35, 0x87, 0xcf]]\<rparr>"
  using package_init_succeeds [OF sample_wire_distinct,
      unfolded builtin_Register_each [OF sample_wire_distinct]]
  by (simp add: sample_wire_fields)

lemma package_init_panics:
  assumes "\<not> distinct [MainNet w, TestNet3 w, TestNet w]"
  shows "package_init w = Inl (Panic ''failed to register network: duplicate DASH network'')"
proof (cases "TestNet3 w = MainNet w")
  case True
  then have "Net (TestNet3Params w) \<in> registeredNets (snd (Register (MainNetParams w) empty_registry))"
    by (simp add: registeredNets_Register MainNetParams_fields TestNet3Params_fields)
  then show ?thesis
    by (simp add: package_init_def init_def mustRegister_fresh mustRegister_known
        empty_registry_def)
next
  case False
  then have t: "Net (TestNet3Params w) \<notin>
      registeredNets (snd (Register (MainNetParams w) empty_registry))"
    by (simp add: registeredNets_Register empty_registry_def MainNetParams_fields
        TestNet3Params_fields)
  from False assms have "Net (RegressionNetParams w) \<in> registeredNets
      (snd (Register (TestNet3Params w) (snd (Register (MainNetParams w) empty_registry))))"
    by (auto simp: registeredNets_Register MainNetParams_fields TestNet3Params_fields
        RegressionNetParams_fields)
  then show ?thesis
    using t
    by (simp add: package_init_def init_def mustRegister_fresh mustRegister_known
        empty_registry_def)
qed

end
